theory Spec2Isabelle
  imports Main "HOL-Library.Multiset" "HOL-Library.Sublist"
begin

section \<open>The progress log as the downloader reads and writes it\<close>

text \<open>
  The log file \<^verbatim>\<open>downloaded.log\<close> is a list of lines, each with its newline, as
  Python's \<^verbatim>\<open>for line in f\<close> yields them. Strings are character lists.
\<close>

definition TAB :: char where
  "TAB = CHR 0x09"

definition NL :: char where
  "NL = CHR 0x0A"

text \<open>\<^verbatim>\<open>"{}\t{}\n".format(url, status)\<close>, the line \<^verbatim>\<open>download_site\<close> produces.\<close>

definition record_line :: "string \<Rightarrow> string \<Rightarrow> string" where
  "record_line url status = url @ [TAB] @ status @ [NL]"

text \<open>\<^verbatim>\<open>s.startswith(p)\<close> and the substring test \<^verbatim>\<open>p in s\<close>.\<close>

fun startswith :: "string \<Rightarrow> string \<Rightarrow> bool" where
  "startswith s [] = True"
| "startswith [] (p # ps) = False"
| "startswith (c # s) (p # ps) = (c = p \<and> startswith s ps)"

fun str_in :: "string \<Rightarrow> string \<Rightarrow> bool" where
  "str_in p [] = (p = [])"
| "str_in p (c # s) = (startswith (c # s) p \<or> str_in p s)"

text \<open>\<^verbatim>\<open>line.split("\t")[0]\<close>: the text before the first tab, the whole line when it has none.\<close>

definition split_tab_0 :: "string \<Rightarrow> string" where
  "split_tab_0 line = takeWhile (\<lambda>c. c \<noteq> TAB) line"

text \<open>
  \<^verbatim>\<open>[line.split("\t")[0] for line in f if "batch above" not in line]\<close>
  (\<^verbatim>\<open>update_downloading_status\<close>, line 383).
\<close>

definition log_urls :: "string list \<Rightarrow> string list" where
  "log_urls lines = map split_tab_0 (filter (\<lambda>line. \<not> str_in ''batch above'' line) lines)"

subsection \<open>collections.Counter\<close>

text \<open>
  A \<^verbatim>\<open>Counter\<close> is a dictionary from key to count; building it from a list adds one
  per element, a key is present once it has been counted.
\<close>

type_synonym counter = "string \<rightharpoonup> int"

definition counter_add :: "counter \<Rightarrow> string \<Rightarrow> counter" where
  "counter_add d k = d(k \<mapsto> (case d k of None \<Rightarrow> 1 | Some n \<Rightarrow> n + 1))"

definition Counter :: "string list \<Rightarrow> counter" where
  "Counter ks = foldl counter_add Map.empty ks"

section \<open>The downloader object and its surroundings\<close>

text \<open>
  What \<^verbatim>\<open>session.get\<close> hands back. A response carries the truth value that
  \<^verbatim>\<open>if response:\<close> finds in it, its status code and its body; a timeout or a
  connection error is an exception raised by the call. The transport itself is outside
  the repository: it is a parameter of the model, a function from the number of GET
  requests issued so far and the URL to what the next request yields. Writing a body can
  fail as well: \<^verbatim>\<open>open(outpath, "wb")\<close> raises for a path that cannot be written, and a
  custom saver is any callable, which may raise.
\<close>

record response =
  ok :: bool
  status_code :: int
  content :: string

datatype exn =
    Timeout
  | ConnectionError
  | OSError
  | AssertionError
  | UnboundLocalError

datatype fetch_result = Raises exn | Returns response

type_synonym transport = "nat \<Rightarrow> string \<Rightarrow> fetch_result"

type_synonym filesystem = "string \<rightharpoonup> string"

type_synonym saver = "string \<Rightarrow> response \<Rightarrow> filesystem \<Rightarrow> exn + filesystem"

text \<open>
  The fields of \<^verbatim>\<open>URLDownloader_v2\<close> that its methods read or write. The HTTP headers
  and the timeout are handed to the transport unchanged and belong to it here; the number
  of threads is the pool's, whose threads the schedule of a batch names by number.
\<close>

record downloader =
  url_list :: "string list"
  output_path_list :: "string list"
  local_output_path :: string
  err_tolerance_num :: int
  stop_interval :: int
  verbose :: bool
  custom_img_saver :: "saver option"
  url_cnter :: int

text \<open>
  The world outside the object: the lines of the log file (a log file that does not exist
  yet has no lines; the constructor creates it before anything reads it), the files
  written, what was printed to stdout and stderr (one entry per \<^verbatim>\<open>print\<close>), and the
  number of GET requests issued so far.
\<close>

record world =
  log_lines :: "string list"
  files :: filesystem
  stdout :: "string list"
  stderr :: "string list"
  requests :: nat

text \<open>
  A thread: the attribute \<^verbatim>\<open>thread_local.err_cntr\<close> (\<open>None\<close> while the thread has
  not set it) and the arguments of the \<^verbatim>\<open>time.sleep\<close> calls the thread has made, oldest
  first.
\<close>

record thread =
  err_cntr :: "int option"
  slept :: "int list"

definition new_thread :: thread where
  "new_thread = \<lparr>err_cntr = None, slept = []\<rparr>"

definition get_thread_local_err_cntr :: "thread \<Rightarrow> int \<times> thread" where
  "get_thread_local_err_cntr th =
     (case err_cntr th of
        None \<Rightarrow> (0, th\<lparr>err_cntr := Some 0\<rparr>)
      | Some n \<Rightarrow> (n, th))"

definition increment_thread_local_err_cntr :: "thread \<Rightarrow> thread" where
  "increment_thread_local_err_cntr th =
     (case err_cntr th of
        None \<Rightarrow> th\<lparr>err_cntr := Some (0 + 1)\<rparr>
      | Some n \<Rightarrow> th\<lparr>err_cntr := Some (n + 1)\<rparr>)"

definition set_to_zero_thread_local_err_cntr :: "thread \<Rightarrow> thread" where
  "set_to_zero_thread_local_err_cntr th = th\<lparr>err_cntr := Some 0\<rparr>"

definition sleep :: "int \<Rightarrow> thread \<Rightarrow> thread" where
  "sleep secs th = th\<lparr>slept := slept th @ [secs]\<rparr>"

subsection \<open>Formatting numbers\<close>

definition digit :: "nat \<Rightarrow> char" where
  "digit n = char_of (48 + n)"

fun str_nat :: "nat \<Rightarrow> string" where
  "str_nat n = (if n < 10 then [digit n] else str_nat (n div 10) @ [digit (n mod 10)])"

definition str_int :: "int \<Rightarrow> string" where
  "str_int i = (if i < 0 then CHR ''-'' # str_nat (nat (- i)) else str_nat (nat i))"

subsection \<open>Paths\<close>

text \<open>\<^verbatim>\<open>os.path.join\<close> and \<^verbatim>\<open>os.path.basename\<close> on POSIX.\<close>

definition join2 :: "string \<Rightarrow> string \<Rightarrow> string" where
  "join2 a b =
     (if startswith b ''/'' then b
      else if a = [] \<or> last a = CHR ''/'' then a @ b
      else a @ ''/'' @ b)"

definition basename :: "string \<Rightarrow> string" where
  "basename p = rev (takeWhile (\<lambda>c. c \<noteq> CHR ''/'') (rev p))"

text \<open>
  \<^verbatim>\<open>urlparse\<close> is the standard library's; the model takes it as a parameter giving
  the two components the code reads.
\<close>

record parse_result =
  url_path :: string
  url_netloc :: string

definition get_outpath_from_url :: "(string \<Rightarrow> parse_result) \<Rightarrow> string \<Rightarrow> string \<Rightarrow> string" where
  "get_outpath_from_url urlparse out url =
     (let parsing = urlparse url;
          fname = (if basename (url_path parsing) \<noteq> [] then basename (url_path parsing)
                   else url_netloc parsing)
      in join2 (join2 out ''data'') fname)"

section \<open>Reconciliation: update_downloading_status\<close>

type_synonym target = "string \<times> string"

text \<open>
  The loop of lines 384 to 390 over \<^verbatim>\<open>zip(self.url_list, self.output_path_list)\<close>:
  \<^verbatim>\<open>d\<close> is \<^verbatim>\<open>downloaded_url\<close>, \<^verbatim>\<open>tmp\<close> the list of kept pairs.
\<close>

fun status_loop :: "counter \<Rightarrow> target list \<Rightarrow> target list \<Rightarrow> target list" where
  "status_loop d tmp [] = tmp"
| "status_loop d tmp ((url, output_path) # rest) =
     (case d url of
        Some n \<Rightarrow>
          (let d1 = d(url \<mapsto> n - 1)
           in if n - 1 = 0 then status_loop (d1(url := None)) tmp rest
              else status_loop d1 tmp rest)
      | None \<Rightarrow> status_loop d (tmp @ [(url, output_path)]) rest)"

definition update_downloading_status :: "world \<Rightarrow> downloader \<Rightarrow> downloader" where
  "update_downloading_status w self =
     (let downloaded_url = Counter (log_urls (log_lines w));
          tmp = status_loop downloaded_url [] (zip (url_list self) (output_path_list self))
      in self\<lparr>url_list := map fst tmp, output_path_list := map snd tmp\<rparr>)"

text \<open>The pending targets of an object: its two lists read together.\<close>

definition pending :: "downloader \<Rightarrow> target list" where
  "pending self = zip (url_list self) (output_path_list self)"

text \<open>
  The reconciliation as the specification words it: a count per URL, a target is dropped
  and the count decremented while the count of its URL is positive, kept otherwise.
\<close>

fun reconcile_spec :: "(string \<Rightarrow> nat) \<Rightarrow> target list \<Rightarrow> target list" where
  "reconcile_spec c [] = []"
| "reconcile_spec c ((url, path) # ts) =
     (if 0 < c url then reconcile_spec (c(url := c url - 1)) ts
      else (url, path) # reconcile_spec c ts)"

section \<open>Fetching one target: download_site\<close>

text \<open>
  Lines 426 to 477. The call runs on one thread, whose counter it reads and writes; it
  changes the object (\<^verbatim>\<open>url_cnter\<close>) and the world. What it returns is either the
  exception that \<^verbatim>\<open>session.get\<close> or the writing of the body raised, which nothing in
  the method catches, or the pair \<^verbatim>\<open>(print_to_log_file, print_to_stderr)\<close>.
\<close>

type_synonym site_result = "exn + (string list \<times> string list)"

definition processed_msg :: "int \<Rightarrow> string" where
  "processed_msg n = ''# processed url: '' @ str_int n @ ''...''"

definition last_error_msg :: "int \<Rightarrow> string \<Rightarrow> string" where
  "last_error_msg code url = ''last error code is '' @ str_int code @ '', error url: '' @ url"

text \<open>
  Lines 450 to 454: the custom saver when the object has one, else
  \<^verbatim>\<open>open(outpath, "wb")\<close> and \<^verbatim>\<open>f.write(response.content)\<close>. \<open>writable\<close> says for which
  paths the file can be opened and written; for the others the attempt raises.
\<close>

definition save_body ::
  "(string \<Rightarrow> bool) \<Rightarrow> saver option \<Rightarrow> string \<Rightarrow> response \<Rightarrow> filesystem
     \<Rightarrow> exn + filesystem" where
  "save_body writable custom outpath resp fs =
     (case custom of
        Some f \<Rightarrow> f outpath resp fs
      | None \<Rightarrow> if writable outpath then Inr (fs(outpath \<mapsto> content resp)) else Inl OSError)"

text \<open>
  The branch of a true response, lines 444 to 456. When the writing raises, the counter of
  processed URLs has been incremented already; the log line and the reset of the error
  counter are not reached.
\<close>

definition on_success ::
  "(string \<Rightarrow> bool) \<Rightarrow> string \<Rightarrow> string \<Rightarrow> response \<Rightarrow> downloader \<times> thread \<times> world
     \<Rightarrow> site_result \<times> downloader \<times> thread \<times> world" where
  "on_success writable url outpath resp st =
     (case st of (self, th, w) \<Rightarrow>
        (let err1 = (if verbose self then [''o''] else []);
             self1 = self\<lparr>url_cnter := url_cnter self + 1\<rparr>;
             err2 = (if url_cnter self1 mod 1000 = 0 \<and> verbose self1
                     then err1 @ [processed_msg (url_cnter self1)] else err1)
         in case save_body writable (custom_img_saver self1) outpath resp (files w) of
              Inl e \<Rightarrow> (Inl e, self1, th, w)
            | Inr fs \<Rightarrow>
                (let w1 = w\<lparr>files := fs\<rparr>;
                     log = [record_line url ''o''];
                     th1 = set_to_zero_thread_local_err_cntr th
                 in (Inr (log, err2), self1, th1, w1))))"

text \<open>The branch of a false response, lines 458 to 467.\<close>

definition on_failure ::
  "string \<Rightarrow> response \<Rightarrow> downloader \<times> thread \<times> world
     \<Rightarrow> site_result \<times> downloader \<times> thread \<times> world" where
  "on_failure url resp st =
     (case st of (self, th, w) \<Rightarrow>
        (let err1 = [''x''];
             self1 = self\<lparr>url_cnter := url_cnter self + 1\<rparr>;
             err2 = (if url_cnter self1 mod 1000 = 0
                     then err1 @ [processed_msg (url_cnter self1)] else err1);
             (n, th1) = get_thread_local_err_cntr th;
             (th2, err3) =
               (if n \<ge> err_tolerance_num self1
                then (set_to_zero_thread_local_err_cntr (sleep (stop_interval self1) th1),
                      err2 @ [last_error_msg (status_code resp) url])
                else (th1, err2));
             th3 = increment_thread_local_err_cntr th2;
             log = [record_line url ''x'']
         in (Inr (log, err3), self1, th3, w)))"

definition download_site ::
  "transport \<Rightarrow> (string \<Rightarrow> bool) \<Rightarrow> string \<Rightarrow> string \<Rightarrow> bool
     \<Rightarrow> downloader \<times> thread \<times> world
     \<Rightarrow> site_result \<times> downloader \<times> thread \<times> world" where
  "download_site get writable url outpath log_flag st =
     (case st of (self, th, w) \<Rightarrow>
        (let w0 = w\<lparr>requests := Suc (requests w)\<rparr>
         in case get (requests w) url of
              Raises e \<Rightarrow> (Inl e, self, th, w0)
            | Returns resp \<Rightarrow>
                (case (if ok resp then on_success writable url outpath resp (self, th, w0)
                       else on_failure url resp (self, th, w0)) of
                   (Inl e, self1, th1, w1) \<Rightarrow> (Inl e, self1, th1, w1)
                 | (Inr (log, err), self1, th1, w1) \<Rightarrow>
                     (let w2 = (if log_flag
                                then w1\<lparr>stderr := stderr w1 @ err @ [[NL]],
                                        log_lines := log_lines w1 @ log\<rparr>
                                else w1)
                      in (Inr (log, err), self1, th1, w2)))))"


section \<open>One batch: batch_download_sites\<close>

text \<open>
  \<^verbatim>\<open>executor.map\<close> hands every target to one of the pool's threads and yields the
  results in the order of submission; leaving the \<^verbatim>\<open>with\<close> block waits for all of
  them. The pool's threads are new, so their counters are unset. Which thread takes which
  target is not determined by the code: \<open>sched\<close> gives the thread of a call from the number
  of requests issued before it. Calls are taken one at a time, in submission order.
\<close>

fun executor_map ::
  "transport \<Rightarrow> (string \<Rightarrow> bool) \<Rightarrow> (nat \<Rightarrow> nat) \<Rightarrow> target list \<Rightarrow> downloader \<times> (nat \<Rightarrow> thread) \<times> world
     \<Rightarrow> site_result list \<times> downloader \<times> (nat \<Rightarrow> thread) \<times> world" where
  "executor_map get writable sched [] st = ([], st)"
| "executor_map get writable sched ((url, outpath) # rest) st =
     (case st of (self, ths, w) \<Rightarrow>
        (let t = sched (requests w);
             (r, self1, th1, w1) = download_site get writable url outpath False (self, ths t, w);
             (rs, st2) = executor_map get writable sched rest (self1, ths(t := th1), w1)
         in (r # rs, st2)))"

text \<open>\<^verbatim>\<open>list(results)\<close> raises the exception of the first call that raised.\<close>

fun list_results :: "site_result list \<Rightarrow> exn + (string list \<times> string list) list" where
  "list_results [] = Inr []"
| "list_results (Inl e # rs) = Inl e"
| "list_results (Inr r # rs) =
     (case list_results rs of Inl e \<Rightarrow> Inl e | Inr xs \<Rightarrow> Inr (r # xs))"

text \<open>
  Lines 479 to 506. \<^verbatim>\<open>num\<close> is assigned only when \<^verbatim>\<open>batch_size\<close> is -1; with any
  other value the read of \<^verbatim>\<open>num\<close> in line 491 raises before anything is fetched.
\<close>

definition files_to_download_msg :: "nat \<Rightarrow> string" where
  "files_to_download_msg n = ''# files to download: '' @ str_nat n"

definition batch_download_sites ::
  "transport \<Rightarrow> (string \<Rightarrow> bool) \<Rightarrow> (nat \<Rightarrow> nat) \<Rightarrow> int \<Rightarrow> downloader \<times> world \<Rightarrow> exn option \<times> downloader \<times> world" where
  "batch_download_sites get writable sched batch_size st =
     (case st of (self, w) \<Rightarrow>
        if batch_size \<noteq> - 1 then (Some UnboundLocalError, self, w)
        else
          (let num = length (url_list self);
               w0 = w\<lparr>stdout := stdout w
                        @ [files_to_download_msg (length (take num (url_list self)))]\<rparr>;
               (results, self1, ths, w1) =
                  executor_map get writable sched
                    (zip (take num (url_list self)) (take num (output_path_list self)))
                    (self, (\<lambda>t. new_thread), w0)
           in case list_results results of
                Inl e \<Rightarrow> (Some e, self1, w1)
              | Inr rs \<Rightarrow>
                  (let w2 = w1\<lparr>stderr := stderr w1 @ concat (map snd rs) @ [[NL]]\<rparr>;
                       w3 = w2\<lparr>log_lines := log_lines w2 @ concat (map fst rs)\<rparr>
                   in (None, update_downloading_status w3 self1, w3))))"

section \<open>Everything: download_all_sites\<close>

text \<open>
  Lines 509 to 519. The loop has no bound of its own, so the result is optional:
  \<open>None\<close> is a run that never returns.
\<close>

partial_function (option) download_all_sites ::
  "transport \<Rightarrow> (string \<Rightarrow> bool) \<Rightarrow> (nat \<Rightarrow> nat) \<Rightarrow> int \<Rightarrow> downloader \<times> world
     \<Rightarrow> (exn option \<times> downloader \<times> world) option" where
  "download_all_sites get writable sched batch_size st =
     (if length (url_list (fst st)) > 0
      then (case batch_download_sites get writable sched batch_size st of
              (Some e, st1) \<Rightarrow> Some (Some e, st1)
            | (None, st1) \<Rightarrow> download_all_sites get writable sched batch_size st1)
      else Some (None, st))"

declare download_all_sites.simps [code]

section \<open>Construction\<close>


definition names_of :: "string list option \<Rightarrow> string list" where
  "names_of output_name_list = (case output_name_list of None \<Rightarrow> [] | Some names \<Rightarrow> names)"

definition truthy :: "string list option \<Rightarrow> bool" where
  "truthy output_name_list = (names_of output_name_list \<noteq> [])"

definition init ::
  "(string \<Rightarrow> parse_result) \<Rightarrow> string list \<Rightarrow> world
     \<Rightarrow> string list \<Rightarrow> string \<Rightarrow> int \<Rightarrow> int \<Rightarrow> string list option \<Rightarrow> bool
     \<Rightarrow> saver option
     \<Rightarrow> exn + downloader" where
  "init urlparse uniq w urls out tolerance interval output_name_list verb saver =
     (if truthy output_name_list \<and> length urls \<noteq> length (names_of output_name_list)
      then Inl AssertionError
      else
        (let (urls1, paths) =
               (if truthy output_name_list
                then (urls, map (\<lambda>name. join2 (join2 out ''data'') name)
                              (names_of output_name_list))
                else (uniq, map (get_outpath_from_url urlparse out) uniq));
             self = \<lparr>url_list = urls1, output_path_list = paths, local_output_path = out,
                     err_tolerance_num = tolerance, stop_interval = interval, verbose = verb,
                     custom_img_saver = saver, url_cnter = 0\<rparr>
         in Inr (update_downloading_status w self)))"

section \<open>Log records\<close>


section \<open>Concrete inputs\<close>

text \<open>Small worlds and objects on which the theorems below are evaluated.\<close>

definition ex_world :: "string list \<Rightarrow> world" where
  "ex_world lines =
     \<lparr>log_lines = lines, files = Map.empty, stdout = [], stderr = [], requests = 0\<rparr>"

definition ex_downloader :: "string list \<Rightarrow> string list \<Rightarrow> downloader" where
  "ex_downloader urls paths =
     \<lparr>url_list = urls, output_path_list = paths, local_output_path = ''out'',
      err_tolerance_num = 2, stop_interval = 5, verbose = True, custom_img_saver = None,
      url_cnter = 0\<rparr>"

text \<open>
  A transport for the examples: one URL times out, one is answered 404 with a false
  response, every other URL is answered 200 with a true response. A path can be written
  unless it is empty or ends in a slash. Calls alternate between two threads.
\<close>

definition ex_response :: "bool \<Rightarrow> int \<Rightarrow> response" where
  "ex_response b code = \<lparr>ok = b, status_code = code, content = ''A''\<rparr>"

definition ex_transport :: transport where
  "ex_transport n url =
     (if url = ''http://x/timeout'' then Raises Timeout
      else if url = ''http://x/missing'' then Returns (ex_response False 404)
      else Returns (ex_response True 200))"

definition ex_writable :: "string \<Rightarrow> bool" where
  "ex_writable p = (p \<noteq> [] \<and> last p \<noteq> CHR ''/'')"

definition ex_sched :: "nat \<Rightarrow> nat" where
  "ex_sched n = n mod 2"

definition ex_urlparse :: "string \<Rightarrow> parse_result" where
  "ex_urlparse url = \<lparr>url_path = ''/a.jpg'', url_netloc = ''x''\<rparr>"

section \<open>Reconciliation: proofs\<close>

text \<open>A Counter and a count function that agree: absent keys are the keys of count zero.\<close>

definition agree :: "counter \<Rightarrow> (string \<Rightarrow> nat) \<Rightarrow> bool" where
  "agree d c = (d = (\<lambda>k. if c k = 0 then None else Some (int (c k))))"

lemma agree_lookup_None: "agree d c \<Longrightarrow> (d k = None) = (c k = 0)"
  by (simp add: agree_def)

lemma agree_lookup_Some: "agree d c \<Longrightarrow> d k = Some n \<Longrightarrow> n = int (c k) \<and> 0 < c k"
  by (auto simp: agree_def split: if_splits)

lemma agree_counter_add: "agree d c \<Longrightarrow> agree (counter_add d k) (c(k := Suc (c k)))"
  by (auto simp: agree_def counter_add_def fun_eq_iff)

lemma agree_foldl:
  "agree d c \<Longrightarrow> agree (foldl counter_add d ks) (\<lambda>k. c k + count_list ks k)"
proof (induction ks arbitrary: d c)
  case Nil
  then show ?case by simp
next
  case (Cons a ks)
  have "agree (foldl counter_add (counter_add d a) ks)
          (\<lambda>k. (c(a := Suc (c a))) k + count_list ks k)"
    by (rule Cons.IH [OF agree_counter_add [OF Cons.prems]])
  moreover have "(\<lambda>k. (c(a := Suc (c a))) k + count_list ks k)
                 = (\<lambda>k. c k + count_list (a # ks) k)"
    by (auto simp: fun_eq_iff)
  ultimately show ?case by simp
qed

lemma agree_Counter: "agree (Counter ks) (count_list ks)"
proof -
  have "agree Map.empty (\<lambda>k. 0::nat)" by (simp add: agree_def)
  from agree_foldl [OF this, of ks] show ?thesis by (simp add: Counter_def)
qed

lemma agree_decrement_pop:
  assumes "agree d c" and "c k = Suc 0"
  shows "agree ((d(k \<mapsto> 0))(k := None)) (c(k := c k - 1))"
  using assms by (auto simp: agree_def fun_eq_iff)

lemma agree_decrement_keep:
  assumes "agree d c" and "Suc 0 < c k"
  shows "agree (d(k \<mapsto> int (c k) - 1)) (c(k := c k - 1))"
  using assms by (auto simp: agree_def fun_eq_iff)

lemma status_loop_spec:
  "agree d c \<Longrightarrow> status_loop d tmp ts = tmp @ reconcile_spec c ts"
proof (induction ts arbitrary: d c tmp)
  case Nil
  then show ?case by simp
next
  case (Cons t ts)
  obtain url path where t: "t = (url, path)" by (cases t)
  show ?case
  proof (cases "d url")
    case None
    then have "c url = 0" using agree_lookup_None [OF Cons.prems] by simp
    then show ?thesis using None t Cons.IH [OF Cons.prems] by simp
  next
    case (Some n)
    then have n: "n = int (c url)" and pos: "0 < c url"
      using agree_lookup_Some [OF Cons.prems Some] by simp_all
    define c' where "c' = c(url := c url - 1)"
    have spec_step: "reconcile_spec c (t # ts) = reconcile_spec c' ts"
      using pos t by (simp add: c'_def)
    show ?thesis
    proof (cases "c url = Suc 0")
      case True
      define d' where "d' = (d(url \<mapsto> n - 1))(url := None)"
      have "agree d' c'"
        unfolding d'_def c'_def using agree_decrement_pop [OF Cons.prems True] n True by simp
      then have "status_loop d' tmp ts = tmp @ reconcile_spec c' ts" by (rule Cons.IH)
      moreover have "status_loop d tmp (t # ts) = status_loop d' tmp ts"
        using Some n True t by (simp add: d'_def)
      ultimately show ?thesis using spec_step by (simp only:)
    next
      case False
      then have gt: "Suc 0 < c url" using pos by simp
      define d' where "d' = d(url \<mapsto> n - 1)"
      have "agree d' c'"
        unfolding d'_def c'_def using agree_decrement_keep [OF Cons.prems gt] n by simp
      then have "status_loop d' tmp ts = tmp @ reconcile_spec c' ts" by (rule Cons.IH)
      moreover have "status_loop d tmp (t # ts) = status_loop d' tmp ts"
        using Some n gt t by (simp add: d'_def)
      ultimately show ?thesis using spec_step by (simp only:)
    qed
  qed
qed

lemma pending_update:
  "pending (update_downloading_status w self)
     = reconcile_spec (count_list (log_urls (log_lines w))) (pending self)"
proof -
  have "status_loop (Counter (log_urls (log_lines w))) [] (pending self)
          = reconcile_spec (count_list (log_urls (log_lines w))) (pending self)"
    using status_loop_spec [OF agree_Counter, of "log_urls (log_lines w)" "[]"] by simp
  then show ?thesis
    by (simp add: update_downloading_status_def pending_def Let_def zip_map_fst_snd)
qed













section \<open>Claims about reconciliation\<close>










section \<open>Fetching one target: proofs\<close>











section \<open>One batch: proofs\<close>










section \<open>Construction and examples: auxiliary facts\<close>








section \<open>Claims about the error counter\<close>



text \<open>
  C8. The claim says the counter is zero once the call that paused has returned. In the
  code the increment of line 466 follows the reset of line 464 unconditionally, so the
  counter is one: with tolerance 2 and a counter of 2, a failed fetch sleeps once and
  leaves the counter at 1.
\<close>

theorem cooldown_leaves_counter_at_one:
  "err_cntr (fst (snd (snd (download_site ex_transport ex_writable ''http://x/missing'' ''p'' False
       (ex_downloader [] [], \<lparr>err_cntr = Some 2, slept = []\<rparr>, ex_world []))))) = Some 1
   \<and> slept (fst (snd (snd (download_site ex_transport ex_writable ''http://x/missing'' ''p'' False
       (ex_downloader [] [], \<lparr>err_cntr = Some 2, slept = []\<rparr>, ex_world []))))) = [5]"
  by code_simp

section \<open>Claims about transport failures and batches\<close>







text \<open>
  C2. The claim holds of no batch size but -1: \<^verbatim>\<open>batch_download_sites\<close> assigns
  \<^verbatim>\<open>num\<close> only in that case, so with the default batch size of 1024 and one pending
  target the first batch raises \<^verbatim>\<open>UnboundLocalError\<close> and nothing is downloaded.
\<close>

theorem default_batch_size_raises:
  "download_all_sites ex_transport ex_writable ex_sched 1024
     (ex_downloader [''http://x/a''] [''p''], ex_world [])
   = Some (Some UnboundLocalError, ex_downloader [''http://x/a''] [''p''], ex_world [])"
  by (subst download_all_sites.simps)
     (simp add: batch_download_sites_def ex_downloader_def)

section \<open>Claims about construction\<close>

text \<open>
  C9, as amended. With a name list that is not empty, construction raises when the
  URL list has another length; when the lengths agree, the object is built from the URLs
  as given, without deduplication, each paired with its name under the data folder, and
  then reconciled against the log.
\<close>

theorem init_with_names:
  assumes "names \<noteq> []"
  shows "(length urls \<noteq> length names \<longrightarrow>
            init urlparse uniq w urls out tolerance interval (Some names) verb saver
              = Inl AssertionError)
         \<and> (length urls = length names \<longrightarrow>
            init urlparse uniq w urls out tolerance interval (Some names) verb saver
              = Inr (update_downloading_status w
                  \<lparr>url_list = urls,
                   output_path_list = map (\<lambda>name. join2 (join2 out ''data'') name) names,
                   local_output_path = out, err_tolerance_num = tolerance,
                   stop_interval = interval, verbose = verb, custom_img_saver = saver,
                   url_cnter = 0\<rparr>))"
  using assms by (simp add: init_def truthy_def names_of_def)

theorem init_with_names_witness:
  "[''1''] \<noteq> ([] :: string list)
   \<and> init ex_urlparse [''u''] (ex_world []) [''u'', ''u''] ''out'' 2 5 (Some [''1'']) True None
       = Inl AssertionError
   \<and> map_sum id pending
        (init ex_urlparse [''u''] (ex_world []) [''u'', ''u''] ''out'' 2 5 (Some [''1'', ''2''])
           True None)
       = Inr [(''u'', ''out/data/1''), (''u'', ''out/data/2'')]"
proof -
  have ne: "[''1''] \<noteq> ([] :: string list)" "[''1'', ''2''] \<noteq> ([] :: string list)"
    by simp_all
  have a: "init ex_urlparse [''u''] (ex_world []) [''u'', ''u''] ''out'' 2 5 (Some [''1'']) True None
             = Inl AssertionError"
    using init_with_names [OF ne(1), of "[''u'', ''u'']" ex_urlparse "[''u'']" "ex_world []"
        "''out''" 2 5 True None]
    by simp
  have paths: "join2 (join2 ''out'' ''data'') ''1'' = ''out/data/1''"
    "join2 (join2 ''out'' ''data'') ''2'' = ''out/data/2''"
    by code_simp+
  have empty_log: "log_urls (log_lines (ex_world [])) = []"
    by (simp add: ex_world_def log_urls_def)
  have b: "init ex_urlparse [''u''] (ex_world []) [''u'', ''u''] ''out'' 2 5
             (Some [''1'', ''2'']) True None
           = Inr (update_downloading_status (ex_world [])
                  \<lparr>url_list = [''u'', ''u''],
                   output_path_list = map (\<lambda>name. join2 (join2 ''out'' ''data'') name) [''1'', ''2''],
                   local_output_path = ''out'', err_tolerance_num = 2,
                   stop_interval = 5, verbose = True, custom_img_saver = None,
                   url_cnter = 0\<rparr>)"
    using init_with_names [OF ne(2), of "[''u'', ''u'']" ex_urlparse "[''u'']" "ex_world []"
        "''out''" 2 5 True None]
    by simp
  have "map_sum id pending
        (init ex_urlparse [''u''] (ex_world []) [''u'', ''u''] ''out'' 2 5 (Some [''1'', ''2''])
           True None)
       = Inr [(''u'', ''out/data/1''), (''u'', ''out/data/2'')]"
    unfolding b by (simp add: pending_update empty_log paths) (simp add: pending_def paths)
  then show ?thesis using ne a by simp
qed

text \<open>
  C9 as stated fails: an empty name list with one URL is a supplied list of another
  length, and construction does not raise.
\<close>

theorem empty_name_list_is_accepted:
  "init ex_urlparse [''u''] (ex_world []) [''u''] ''out'' 2 5 (Some []) True None
     \<noteq> Inl AssertionError"
  by (simp add: init_def truthy_def names_of_def)



end
